theory Spec2Isabelle
  imports Main
begin

section \<open>Data model of \<open>src/lib/utils/device/live.ts\<close>\<close>

text \<open>
  The module defines the class \<open>LivepushManager\<close>. Its collaborators (the device API, the
  livepush diff engine, the chokidar watcher, the logger, \<open>path.join\<close>) live in other
  packages; they appear here as parameters and as entries of an effect trace.

  Errors are values. Each \<open>throw new Error(...)\<close> of the source has a constructor of its
  own, named after the message it carries; a rejected promise of a collaborator is
  \<open>ApiError\<close> (for \<open>getStatus\<close>) or \<open>ExecutionError\<close> (for \<open>performActions\<close>);
  an exception thrown by \<open>new Livepush(...)\<close> is \<open>DiffEngineInitError\<close>; reading a property
  of \<open>undefined\<close> or \<open>null\<close> is \<open>TypeError\<close>.
\<close>

datatype error =
    NoBuildTask string    \<comment> \<open>"Could not find a build task for service: <name>" (line 59)\<close>
  | NoDockerfile string   \<comment> \<open>"Could not detect dockerfile for service: <name>" (line 69)\<close>
  | NoContainer string    \<comment> \<open>"Could not find container on-device for service: <name>" (line 80)\<close>
  | UnknownEvent string   \<comment> \<open>"Unknown event: <type>" (line 176)\<close>
  | ApiError string
  | ExecutionError string
  | DiffEngineInitError string
  | TypeError

text \<open>\<open>Status\<close> of \<open>./api\<close>: the fields the module reads.\<close>

record ContainerStatus =
  container_serviceName :: string
  containerId :: string

record Status =
  appState :: string
  status_containers :: "ContainerStatus list"

text \<open>\<open>BuildTask\<close> of resin-multibuild: \<open>dockerfile\<close> is optional.\<close>

record BuildTask =
  task_serviceName :: string
  dockerfile :: "string option"

text \<open>
  \<open>Composition\<close> of resin-compose-parse. \<open>services\<close> is an object keyed by service name;
  the module enumerates it with \<open>for ... in\<close>, so it is kept as an association list in
  enumeration order. An object has each key once.
\<close>

record BuildConfig =
  build_context :: string

record Service =
  build :: "BuildConfig option"

record Composition =
  services :: "(string \<times> Service) list"

text \<open>\<open>FileUpdates\<close> of livepush, as built by \<open>new FileUpdates({updated, added, deleted})\<close>.\<close>

record FileUpdates =
  updated :: "string list"
  added :: "string list"
  deleted :: "string list"

text \<open>
  \<open>ContextEvent\<close> (lines 24-28). The TypeScript type of \<open>type\<close> is a union of three string
  literals, erased at run time; the \<open>switch\<close> of \<open>handleFSEvent\<close> has a \<open>default\<close> branch,
  so the field is a string here.
\<close>

record ContextEvent =
  etype :: string
  filename :: string
  serviceName :: string

text \<open>
  A \<open>Livepush\<close> handle is \<open>new Livepush(dockerfile, context, containerId, docker)\<close> together
  with the listeners registered on it (lines 96-101): each listener maps its argument to the
  line it logs. The constructor belongs to the livepush package and may throw; whether it
  does is a parameter of the loop body (see \<open>initService\<close>).
\<close>

record Livepush =
  lp_dockerfile :: string
  lp_context :: string
  lp_containerId :: string
  lp_listeners :: "(string \<times> (string \<Rightarrow> string)) list"

text \<open>
  A chokidar watcher is \<open>chokidar.watch(paths, {cwd, ignoreInitial})\<close> together with the
  listeners registered on it (lines 110-118): each listener maps the path it receives to
  the event it passes to \<open>handleFSEvent\<close>.
\<close>

record FSWatcher =
  watch_paths :: string
  cwd :: string
  ignoreInitial :: bool
  listeners :: "(string \<times> (string \<Rightarrow> ContextEvent)) list"

record MonitoredContainer =
  mc_context :: string
  livepush :: Livepush
  monitor :: FSWatcher

text \<open>
  What the manager does to the outside, in order: log lines, calls of the device API, the
  delay between polls, watcher creation and the calls into the diff engine. \<open>'g\<close> is the
  opaque \<open>DockerfileActionGroup\<close>.
\<close>

datatype 'g effect =
    LogLivepush string
  | LogDebug string
  | LogDebugFSEvent ContextEvent
      \<comment> \<open>"Got an filesystem event for service: <name>. Event: <JSON of the event>"\<close>
  | GetStatus
  | Delay nat
  | Watch string
  | ActionsNeeded Livepush FileUpdates
  | PerformActions Livepush FileUpdates "'g list"

text \<open>
  The fields of the class (lines 31-41), with the collaborators \<open>api\<close> and \<open>logger\<close>
  represented by what the manager has done to them: \<open>apiCalls\<close> counts the \<open>getStatus\<close>
  calls issued so far and \<open>trace\<close> is the list of effects. \<open>containers\<close> is an object
  used as a dictionary from service names, taken to be ordinary property keys.
\<close>

record 'g LivepushManager =
  buildContext :: string
  composition :: Composition
  buildTasks :: "BuildTask list"
  lastDeviceStatus :: "Status option"
  containers :: "string \<rightharpoonup> MonitoredContainer"
  apiCalls :: nat
  trace :: "'g effect list"

definition DEVICE_STATUS_SETTLE_CHECK_INTERVAL :: nat where
  "DEVICE_STATUS_SETTLE_CHECK_INTERVAL = 500"

definition emit_effect :: "'g effect \<Rightarrow> 'g LivepushManager \<Rightarrow> 'g LivepushManager" where
  "emit_effect e st = st\<lparr>trace := trace st @ [e]\<rparr>"

text \<open>The constructor (lines 34-41): no status cached, no containers.\<close>

definition new_LivepushManager ::
  "string \<Rightarrow> Composition \<Rightarrow> BuildTask list \<Rightarrow> 'g LivepushManager" where
  "new_LivepushManager ctx cmp tasks =
     \<lparr>buildContext = ctx, composition = cmp, buildTasks = tasks,
      lastDeviceStatus = None, containers = Map.empty, apiCalls = 0, trace = []\<rparr>"

section \<open>Event classification (lines 152-177)\<close>

definition classify :: "ContextEvent \<Rightarrow> error + FileUpdates" where
  "classify fsEvent =
     (if etype fsEvent = ''add'' then
        Inr \<lparr>updated = [], added = [filename fsEvent], deleted = []\<rparr>
      else if etype fsEvent = ''change'' then
        Inr \<lparr>updated = [filename fsEvent], added = [], deleted = []\<rparr>
      else if etype fsEvent = ''unlink'' then
        Inr \<lparr>updated = [], added = [], deleted = [filename fsEvent]\<rparr>
      else Inl (UnknownEvent (etype fsEvent)))"

section \<open>Executing actions (lines 194-202)\<close>

text \<open>
  \<open>performActions\<close> of the diff engine is a parameter: it resolves (\<open>Inr ()\<close>) or rejects
  (\<open>Inl e\<close>). The \<open>await\<close> rethrows a rejection, so the log line after it is reached
  only when the call resolved.
\<close>

definition executeActions ::
  "(Livepush \<Rightarrow> FileUpdates \<Rightarrow> 'g list \<Rightarrow> error + unit) \<Rightarrow>
   'g list \<Rightarrow> FileUpdates \<Rightarrow> Livepush \<Rightarrow> string \<Rightarrow> 'g LivepushManager \<Rightarrow>
   (error + unit) \<times> 'g LivepushManager" where
  "executeActions performActions actions updates lp sn st =
     (let st1 = emit_effect (PerformActions lp updates actions) st in
      case performActions lp updates actions of
        Inl e \<Rightarrow> (Inl e, st1)
      | Inr _ \<Rightarrow>
          (Inr (), emit_effect (LogLivepush (''Restarting container for service '' @ sn)) st1))"

section \<open>Handling a filesystem event (lines 144-192)\<close>

text \<open>
  \<open>actionsNeeded\<close> of the diff engine is a parameter. \<open>this.containers[name].livepush\<close>
  with no entry for the name reads a property of \<open>undefined\<close>.
\<close>

definition handleFSEvent ::
  "(Livepush \<Rightarrow> FileUpdates \<Rightarrow> 'g list) \<Rightarrow>
   (Livepush \<Rightarrow> FileUpdates \<Rightarrow> 'g list \<Rightarrow> error + unit) \<Rightarrow>
   ContextEvent \<Rightarrow> 'g LivepushManager \<Rightarrow> (error + unit) \<times> 'g LivepushManager" where
  "handleFSEvent actionsNeeded performActions fsEvent st =
     (let st1 = emit_effect (LogDebugFSEvent fsEvent) st in
      case classify fsEvent of
        Inl e \<Rightarrow> (Inl e, st1)
      | Inr updates \<Rightarrow>
          (case containers st1 (serviceName fsEvent) of
             None \<Rightarrow> (Inl TypeError, st1)
           | Some c \<Rightarrow>
               (let lp = livepush c;
                    actions = actionsNeeded lp updates;
                    st2 = emit_effect (ActionsNeeded lp updates) st1
                in if length actions = 0 then (Inr (), st2)
                   else executeActions performActions actions updates lp (serviceName fsEvent)
                          (emit_effect
                             (LogLivepush (''Detected changes for container ''
                                @ serviceName fsEvent @ '', updating...'')) st2))))"

section \<open>Waiting for the device state to settle (lines 129-142)\<close>

text \<open>
  \<open>getStatus\<close> is a parameter: the answer of the device to the call with the given index
  (counted from 0), a status or a rejection. The source recurses without a bound, so the
  function is partial: \<open>None\<close> is a wait that never ends.
\<close>

partial_function (option) awaitDeviceStateSettle ::
  "(nat \<Rightarrow> error + Status) \<Rightarrow> 'g LivepushManager \<Rightarrow>
   ((error + unit) \<times> 'g LivepushManager) option" where
  "awaitDeviceStateSettle getStatus st =
     (case getStatus (apiCalls st) of
        Inl e \<Rightarrow> Some (Inl e, emit_effect GetStatus (st\<lparr>apiCalls := Suc (apiCalls st)\<rparr>))
      | Inr status \<Rightarrow>
          if appState status = ''applied'' then
            Some (Inr (), (emit_effect GetStatus (st\<lparr>apiCalls := Suc (apiCalls st)\<rparr>))
                            \<lparr>lastDeviceStatus := Some status\<rparr>)
          else
            awaitDeviceStateSettle getStatus
              (emit_effect (Delay DEVICE_STATUS_SETTLE_CHECK_INTERVAL)
                (emit_effect (LogDebug ''Device state not settled, retrying in 500ms'')
                  ((emit_effect GetStatus (st\<lparr>apiCalls := Suc (apiCalls st)\<rparr>))
                     \<lparr>lastDeviceStatus := Some status\<rparr>))))"

section \<open>Initialisation (lines 43-127)\<close>

text \<open>
  The body of the \<open>for ... in\<close> loop for one service. \<open>join\<close> is \<open>path.join\<close>.
  \<open>_.find\<close> returns the first match, as \<open>find\<close> does. \<open>construct\<close> stands for the
  constructor of the livepush package, called at lines 89-94 with the dockerfile, the
  context and the container identity: \<open>None\<close> when it returns, \<open>Some e\<close> when it throws
  \<open>e\<close>. Nothing catches the exception, so it leaves the loop like the three \<open>throw\<close>s
  do, before the watcher is created and the session stored.
\<close>

definition new_Livepush :: "string \<Rightarrow> string \<Rightarrow> string \<Rightarrow> string \<Rightarrow> Livepush" where
  "new_Livepush sn df ctx cid =
     \<lparr>lp_dockerfile = df, lp_context = ctx, lp_containerId = cid,
      lp_listeners =
        [(''commandExecute'',
            \<lambda>command. ''[service '' @ sn @ ''] Executing command: `'' @ command @ ''`''),
         (''commandOutput'', \<lambda>output. ''[service '' @ sn @ '']     '' @ output)]\<rparr>"

definition new_monitor :: "string \<Rightarrow> string \<Rightarrow> FSWatcher" where
  "new_monitor sn ctx =
     \<lparr>watch_paths = ''.'', cwd = ctx, ignoreInitial = True,
      listeners =
        [(''add'', \<lambda>p. \<lparr>etype = ''add'', filename = p, serviceName = sn\<rparr>),
         (''change'', \<lambda>p. \<lparr>etype = ''change'', filename = p, serviceName = sn\<rparr>),
         (''unlink'', \<lambda>p. \<lparr>etype = ''unlink'', filename = p, serviceName = sn\<rparr>)]\<rparr>"

definition initService ::
  "(string \<Rightarrow> string \<Rightarrow> string \<Rightarrow> error option) \<Rightarrow> (string \<Rightarrow> string \<Rightarrow> string) \<Rightarrow>
   string \<Rightarrow> Service \<Rightarrow> 'g LivepushManager \<Rightarrow> (error + unit) \<times> 'g LivepushManager" where
  "initService construct join sn service st =
     (case find (\<lambda>task. task_serviceName task = sn) (buildTasks st) of
        None \<Rightarrow> (Inl (NoBuildTask sn), st)
      | Some buildTask \<Rightarrow>
          (case build service of
             None \<Rightarrow> (Inr (), st)
           | Some b \<Rightarrow>
               (let ctx = join (buildContext st) (build_context b) in
                case dockerfile buildTask of
                  None \<Rightarrow> (Inl (NoDockerfile sn), st)
                | Some df \<Rightarrow>
                    (case lastDeviceStatus st of
                       None \<Rightarrow> (Inl TypeError, st)
                     | Some status \<Rightarrow>
                         (case find (\<lambda>c. container_serviceName c = sn)
                                 (status_containers status) of
                            None \<Rightarrow> (Inl (NoContainer sn), st)
                          | Some container \<Rightarrow>
                              (case construct df ctx (containerId container) of
                                 Some e \<Rightarrow> (Inl e, st)
                               | None \<Rightarrow>
                                   (Inr (),
                                    (emit_effect (Watch ctx) st)
                                      \<lparr>containers := (containers st)(sn \<mapsto>
                                         \<lparr>mc_context = ctx,
                                          livepush =
                                            new_Livepush sn df ctx (containerId container),
                                          monitor = new_monitor sn ctx\<rparr>)\<rparr>)))))))"

text \<open>The loop: a throw leaves it, and everything stored before the throw stays stored.\<close>

fun initServices ::
  "(string \<Rightarrow> string \<Rightarrow> string \<Rightarrow> error option) \<Rightarrow> (string \<Rightarrow> string \<Rightarrow> string) \<Rightarrow>
   (string \<times> Service) list \<Rightarrow> 'g LivepushManager \<Rightarrow> (error + unit) \<times> 'g LivepushManager" where
  "initServices construct join [] st = (Inr (), st)"
| "initServices construct join ((sn, service) # rest) st =
     (case initService construct join sn service st of
        (Inl e, st') \<Rightarrow> (Inl e, st')
      | (Inr _, st') \<Rightarrow> initServices construct join rest st')"

definition init ::
  "(nat \<Rightarrow> error + Status) \<Rightarrow> (string \<Rightarrow> string \<Rightarrow> string \<Rightarrow> error option) \<Rightarrow>
   (string \<Rightarrow> string \<Rightarrow> string) \<Rightarrow> 'g LivepushManager \<Rightarrow>
   ((error + unit) \<times> 'g LivepushManager) option" where
  "init getStatus construct join st =
     (case awaitDeviceStateSettle getStatus
             (emit_effect (LogLivepush ''Waiting for device state to settle...'') st) of
        None \<Rightarrow> None
      | Some (Inl e, st') \<Rightarrow> Some (Inl e, st')
      | Some (Inr _, st') \<Rightarrow> Some (initServices construct join (services (composition st')) st'))"

section \<open>The handler as the event loop runs it\<close>

text \<open>
  \<open>handleFSEvent\<close> is an \<open>async\<close> function called from a watcher callback. Its body runs
  without interruption up to \<open>await livepush.performActions(updates, actions)\<close>: the
  classification, the \<open>actionsNeeded\<close> query, the log line and the call of
  \<open>performActions\<close> itself all happen inside the callback. There the handler is suspended
  until the promise settles, and other callbacks run in the meantime. The module keeps no
  lock, queue or flag between handler runs; the only state they share is the manager.

  \<open>handleFSEvent_start\<close> is the part before the suspension, \<open>handleFSEvent_resume\<close> the
  part after it. An execution in flight is the call of \<open>performActions\<close> whose promise
  has not settled yet.
\<close>

datatype 'g execution =
  Execution (ex_livepush: Livepush) (ex_updates: FileUpdates) (ex_actions: "'g list")
    (ex_serviceName: string)

datatype 'g suspension = Finished "error + unit" | Awaiting "'g execution"

definition handleFSEvent_start ::
  "(Livepush \<Rightarrow> FileUpdates \<Rightarrow> 'g list) \<Rightarrow> ContextEvent \<Rightarrow> 'g LivepushManager \<Rightarrow>
   'g suspension \<times> 'g LivepushManager" where
  "handleFSEvent_start actionsNeeded fsEvent st =
     (let st1 = emit_effect (LogDebugFSEvent fsEvent) st in
      case classify fsEvent of
        Inl e \<Rightarrow> (Finished (Inl e), st1)
      | Inr updates \<Rightarrow>
          (case containers st1 (serviceName fsEvent) of
             None \<Rightarrow> (Finished (Inl TypeError), st1)
           | Some c \<Rightarrow>
               (let lp = livepush c;
                    actions = actionsNeeded lp updates;
                    st2 = emit_effect (ActionsNeeded lp updates) st1
                in if length actions = 0 then (Finished (Inr ()), st2)
                   else (Awaiting (Execution lp updates actions (serviceName fsEvent)),
                         emit_effect (PerformActions lp updates actions)
                           (emit_effect
                              (LogLivepush (''Detected changes for container ''
                                 @ serviceName fsEvent @ '', updating...'')) st2)))))"

definition handleFSEvent_resume ::
  "error + unit \<Rightarrow> 'g execution \<Rightarrow> 'g LivepushManager \<Rightarrow>
   (error + unit) \<times> 'g LivepushManager" where
  "handleFSEvent_resume settled ex st =
     (case settled of
        Inl e \<Rightarrow> (Inl e, st)
      | Inr _ \<Rightarrow>
          (Inr (),
           emit_effect
             (LogLivepush (''Restarting container for service '' @ ex_serviceName ex)) st))"

text \<open>
  What happens on the event loop: a watcher callback delivers an event, or the promise of
  the in-flight execution with the given index settles with the given result. The state is
  the manager together with the executions in flight, oldest first.
\<close>

datatype occurrence = FSEvent ContextEvent | Settle nat "error + unit"

fun step ::
  "(Livepush \<Rightarrow> FileUpdates \<Rightarrow> 'g list) \<Rightarrow> occurrence \<Rightarrow>
   'g LivepushManager \<times> 'g execution list \<Rightarrow> 'g LivepushManager \<times> 'g execution list" where
  "step actionsNeeded (FSEvent fsEvent) (st, inflight) =
     (case handleFSEvent_start actionsNeeded fsEvent st of
        (Finished _, st') \<Rightarrow> (st', inflight)
      | (Awaiting ex, st') \<Rightarrow> (st', inflight @ [ex]))"
| "step actionsNeeded (Settle i settled) (st, inflight) =
     (if i < length inflight then
        (snd (handleFSEvent_resume settled (inflight ! i) st),
         take i inflight @ drop (Suc i) inflight)
      else (st, inflight))"

fun run ::
  "(Livepush \<Rightarrow> FileUpdates \<Rightarrow> 'g list) \<Rightarrow> occurrence list \<Rightarrow>
   'g LivepushManager \<times> 'g execution list \<Rightarrow> 'g LivepushManager \<times> 'g execution list" where
  "run actionsNeeded [] w = w"
| "run actionsNeeded (x # xs) w = run actionsNeeded xs (step actionsNeeded x w)"

text \<open>The executions in flight for one service.\<close>

definition executing :: "'g execution list \<Rightarrow> string \<Rightarrow> 'g execution list" where
  "executing inflight sn = filter (\<lambda>ex. ex_serviceName ex = sn) inflight"

section \<open>Observations\<close>



text \<open>Projections of the effect trace: the watchers created and the device polls.\<close>

fun created_watchers :: "'g effect list \<Rightarrow> string list" where
  "created_watchers [] = []"
| "created_watchers (Watch c # es) = c # created_watchers es"
| "created_watchers (_ # es) = created_watchers es"

definition status_calls :: "'g effect list \<Rightarrow> nat" where
  "status_calls es = length (filter (\<lambda>e. e = GetStatus) es)"

text \<open>
  Whether a service passes the checks of the loop body, read off the inputs: it has a build
  task, and if it declares a build, the task has a dockerfile and the cached status lists
  a container for it.
\<close>

definition has_task :: "'g LivepushManager \<Rightarrow> string \<Rightarrow> bool" where
  "has_task st sn = (find (\<lambda>task. task_serviceName task = sn) (buildTasks st) \<noteq> None)"

definition has_dockerfile :: "'g LivepushManager \<Rightarrow> string \<Rightarrow> bool" where
  "has_dockerfile st sn =
     (case find (\<lambda>task. task_serviceName task = sn) (buildTasks st) of
        None \<Rightarrow> False
      | Some task \<Rightarrow> dockerfile task \<noteq> None)"

definition has_container :: "Status \<Rightarrow> string \<Rightarrow> bool" where
  "has_container status sn =
     (find (\<lambda>c. container_serviceName c = sn) (status_containers status) \<noteq> None)"

text \<open>
  What the constructor answers for the handle of a service that declares a build and has a
  dockerfile and a container: the exception it throws, or \<open>None\<close> when it returns. For a
  service that never reaches the constructor it is \<open>None\<close>.
\<close>

definition construction_error ::
  "(string \<Rightarrow> string \<Rightarrow> string \<Rightarrow> error option) \<Rightarrow> (string \<Rightarrow> string \<Rightarrow> string) \<Rightarrow>
   'g LivepushManager \<Rightarrow> Status \<Rightarrow> string \<Rightarrow> Service \<Rightarrow> error option" where
  "construction_error construct join st status sn service =
     (case build service of
        None \<Rightarrow> None
      | Some b \<Rightarrow>
          (case find (\<lambda>task. task_serviceName task = sn) (buildTasks st) of
             None \<Rightarrow> None
           | Some task \<Rightarrow>
               (case dockerfile task of
                  None \<Rightarrow> None
                | Some df \<Rightarrow>
                    (case find (\<lambda>c. container_serviceName c = sn) (status_containers status) of
                       None \<Rightarrow> None
                     | Some c \<Rightarrow>
                         construct df (join (buildContext st) (build_context b))
                           (containerId c)))))"

section \<open>Concrete inputs\<close>

text \<open>
  A composition with the buildable services \<open>web\<close> and \<open>worker\<close> and the image-only
  service \<open>db\<close>; build tasks for \<open>web\<close> and \<open>db\<close> only; a device that has applied its
  target state and runs a container for \<open>web\<close>.
\<close>

definition ex_join :: "string \<Rightarrow> string \<Rightarrow> string" where
  "ex_join a b = a @ ''/'' @ b"

text \<open>
  Modelled from the spec: the constructor of the diff-engine handle belongs to the livepush
  package, which is not part of this module; "construction of this handle may fail with
  DiffEngineInitError if the dockerfile cannot be parsed". This constructor rejects one
  text that is no dockerfile and accepts everything else.
\<close>

definition ex_construct :: "string \<Rightarrow> string \<Rightarrow> string \<Rightarrow> error option" where
  "ex_construct df ctx cid =
     (if df = ''THIS IS NOT A DOCKERFILE'' then Some (DiffEngineInitError df) else None)"


definition ex_status :: "string \<Rightarrow> Status" where
  "ex_status tag =
     \<lparr>appState = tag,
      status_containers = [\<lparr>container_serviceName = ''web'', containerId = ''c0ffee''\<rparr>]\<rparr>"

definition ex_tasks :: "BuildTask list" where
  "ex_tasks =
     [\<lparr>task_serviceName = ''web'', dockerfile = Some ''FROM node''\<rparr>,
      \<lparr>task_serviceName = ''db'', dockerfile = None\<rparr>]"

definition ex_web :: Service where
  "ex_web = \<lparr>build = Some \<lparr>build_context = ''web''\<rparr>\<rparr>"

definition ex_worker :: Service where
  "ex_worker = \<lparr>build = Some \<lparr>build_context = ''worker''\<rparr>\<rparr>"

definition ex_db :: Service where
  "ex_db = \<lparr>build = None\<rparr>"

definition ex_manager :: "(string \<times> Service) list \<Rightarrow> BuildTask list \<Rightarrow> nat LivepushManager" where
  "ex_manager svcs tasks = new_LivepushManager ''/app'' \<lparr>services = svcs\<rparr> tasks"

text \<open>A device that answers "applying" to the first two polls and "applied" from then on.\<close>

definition ex_getStatus :: "nat \<Rightarrow> error + Status" where
  "ex_getStatus i = (if i < 2 then Inr (ex_status ''applying'') else Inr (ex_status ''applied''))"

text \<open>A device whose third poll is rejected.\<close>

definition ex_getStatus_failing :: "nat \<Rightarrow> error + Status" where
  "ex_getStatus_failing i =
     (if i < 2 then Inr (ex_status ''applying'') else Inl (ApiError ''ECONNREFUSED''))"

text \<open>A diff engine that asks for one action group for every updated file and for nothing else.\<close>

definition ex_actionsNeeded :: "Livepush \<Rightarrow> FileUpdates \<Rightarrow> nat list" where
  "ex_actionsNeeded lp u = map length (updated u)"

text \<open>A device that has applied its target state at the first poll.\<close>

definition ex_getStatus_applied :: "nat \<Rightarrow> error + Status" where
  "ex_getStatus_applied i = Inr (ex_status ''applied'')"

text \<open>The manager when \<open>init\<close> enters its loop on that device.\<close>

definition ex_settled :: "(string \<times> Service) list \<Rightarrow> BuildTask list \<Rightarrow> nat LivepushManager" where
  "ex_settled svcs tasks =
     \<lparr>buildContext = ''/app'', composition = \<lparr>services = svcs\<rparr>, buildTasks = tasks,
      lastDeviceStatus = Some (ex_status ''applied''), containers = Map.empty,
      apiCalls = 1,
      trace = [LogLivepush ''Waiting for device state to settle...'', GetStatus]\<rparr>"

text \<open>The manager after \<open>init\<close> for the service \<open>web\<close> alone on that device.\<close>

definition ex_running :: "nat LivepushManager" where
  "ex_running =
     \<lparr>buildContext = ''/app'', composition = \<lparr>services = [(''web'', ex_web)]\<rparr>,
      buildTasks = ex_tasks, lastDeviceStatus = Some (ex_status ''applied''),
      containers = [''web'' \<mapsto>
        \<lparr>mc_context = ''/app/web'',
         livepush = new_Livepush ''web'' ''FROM node'' ''/app/web'' ''c0ffee'',
         monitor = new_monitor ''web'' ''/app/web''\<rparr>],
      apiCalls = 1,
      trace = [LogLivepush ''Waiting for device state to settle...'', GetStatus,
               Watch ''/app/web'']\<rparr>"

text \<open>A diff engine whose \<open>performActions\<close> resolves, and one whose \<open>performActions\<close> rejects.\<close>

definition ex_performActions :: "Livepush \<Rightarrow> FileUpdates \<Rightarrow> nat list \<Rightarrow> error + unit" where
  "ex_performActions lp u actions = Inr ()"

definition ex_performActions_failing ::
  "Livepush \<Rightarrow> FileUpdates \<Rightarrow> nat list \<Rightarrow> error + unit" where
  "ex_performActions_failing lp u actions = Inl (ExecutionError ''exit code 1'')"

text \<open>The diff-engine handle of \<open>web\<close> in \<open>ex_running\<close>.\<close>

definition ex_web_livepush :: Livepush where
  "ex_web_livepush = new_Livepush ''web'' ''FROM node'' ''/app/web'' ''c0ffee''"

section \<open>Event classification\<close>

text \<open>
  C3. An event of kind add, change or unlink with path \<open>p\<close> is classified into the batch
  whose \<open>added\<close>, \<open>updated\<close> (the spec's "modified") or \<open>deleted\<close> field respectively is
  \<open>[p]\<close>, the other two fields being empty; an event of any other kind fails with the
  unknown-event error.
\<close>

theorem classify_kinds:
  "classify \<lparr>etype = ''add'', filename = p, serviceName = sn\<rparr>
     = Inr \<lparr>updated = [], added = [p], deleted = []\<rparr>
   \<and> classify \<lparr>etype = ''change'', filename = p, serviceName = sn\<rparr>
     = Inr \<lparr>updated = [p], added = [], deleted = []\<rparr>
   \<and> classify \<lparr>etype = ''unlink'', filename = p, serviceName = sn\<rparr>
     = Inr \<lparr>updated = [], added = [], deleted = [p]\<rparr>
   \<and> (k \<noteq> ''add'' \<and> k \<noteq> ''change'' \<and> k \<noteq> ''unlink'' \<longrightarrow>
        classify \<lparr>etype = k, filename = p, serviceName = sn\<rparr> = Inl (UnknownEvent k))"
  by (simp add: classify_def)

theorem classify_kinds_witness:
  "classify \<lparr>etype = ''rename'', filename = ''a.js'', serviceName = ''web''\<rparr>
     = Inl (UnknownEvent ''rename'')"
  using classify_kinds [of "''a.js''" "''web''" "''rename''"] by simp

section \<open>The settle wait\<close>

lemma created_watchers_append:
  "created_watchers (xs @ ys) = created_watchers xs @ created_watchers ys"
  by (induction xs rule: created_watchers.induct) simp_all

text \<open>One unfolding of the wait, for each of the three answers the device can give.\<close>

lemma await_retry:
  assumes "getStatus (apiCalls st) = Inr s" and "appState s \<noteq> ''applied''"
  shows "awaitDeviceStateSettle getStatus st =
         awaitDeviceStateSettle getStatus
           (emit_effect (Delay DEVICE_STATUS_SETTLE_CHECK_INTERVAL)
             (emit_effect (LogDebug ''Device state not settled, retrying in 500ms'')
               ((emit_effect GetStatus (st\<lparr>apiCalls := Suc (apiCalls st)\<rparr>))
                  \<lparr>lastDeviceStatus := Some s\<rparr>)))"
  using assms by (subst awaitDeviceStateSettle.simps) simp

lemma await_applied:
  assumes "getStatus (apiCalls st) = Inr s" and "appState s = ''applied''"
  shows "awaitDeviceStateSettle getStatus st =
         Some (Inr (), (emit_effect GetStatus (st\<lparr>apiCalls := Suc (apiCalls st)\<rparr>))
                          \<lparr>lastDeviceStatus := Some s\<rparr>)"
  using assms by (subst awaitDeviceStateSettle.simps) simp

lemma await_rejected:
  assumes "getStatus (apiCalls st) = Inl e"
  shows "awaitDeviceStateSettle getStatus st =
         Some (Inl e, emit_effect GetStatus (st\<lparr>apiCalls := Suc (apiCalls st)\<rparr>))"
  using assms by (subst awaitDeviceStateSettle.simps) simp

text \<open>
  \<open>N\<close> unsettled answers in a row bring the wait to a state with \<open>N\<close> more polls behind
  it, and nothing else of the manager touched but the cached status.
\<close>

lemma await_retries:
  assumes "\<forall>i<N. \<exists>s. getStatus (apiCalls st + i) = Inr s \<and> appState s \<noteq> ''applied''"
  shows "\<exists>st'. awaitDeviceStateSettle getStatus st = awaitDeviceStateSettle getStatus st'
           \<and> apiCalls st' = apiCalls st + N
           \<and> status_calls (trace st') = status_calls (trace st) + N
           \<and> created_watchers (trace st') = created_watchers (trace st)
           \<and> containers st' = containers st
           \<and> buildTasks st' = buildTasks st
           \<and> buildContext st' = buildContext st
           \<and> composition st' = composition st"
  using assms
proof (induction N arbitrary: st)
  case 0
  then show ?case by auto
next
  case (Suc N)
  from Suc.prems obtain s where s: "getStatus (apiCalls st) = Inr s" "appState s \<noteq> ''applied''"
    by force
  define st1 where "st1 = emit_effect (Delay DEVICE_STATUS_SETTLE_CHECK_INTERVAL)
             (emit_effect (LogDebug ''Device state not settled, retrying in 500ms'')
               ((emit_effect GetStatus (st\<lparr>apiCalls := Suc (apiCalls st)\<rparr>))
                  \<lparr>lastDeviceStatus := Some s\<rparr>))"
  have eq: "awaitDeviceStateSettle getStatus st = awaitDeviceStateSettle getStatus st1"
    unfolding st1_def using s by (rule await_retry [where getStatus = getStatus and st = st])
  have st1: "apiCalls st1 = Suc (apiCalls st)"
    "status_calls (trace st1) = Suc (status_calls (trace st))"
    "created_watchers (trace st1) = created_watchers (trace st)"
    "containers st1 = containers st" "buildTasks st1 = buildTasks st"
    "buildContext st1 = buildContext st" "composition st1 = composition st"
    by (simp_all add: st1_def emit_effect_def status_calls_def created_watchers_append)
  have "\<forall>i<N. \<exists>s. getStatus (apiCalls st1 + i) = Inr s \<and> appState s \<noteq> ''applied''"
  proof (intro allI impI)
    fix i assume "i < N"
    then have "Suc i < Suc N" by simp
    with Suc.prems have "\<exists>s. getStatus (apiCalls st + Suc i) = Inr s \<and> appState s \<noteq> ''applied''"
      by blast
    then show "\<exists>s. getStatus (apiCalls st1 + i) = Inr s \<and> appState s \<noteq> ''applied''"
      by (simp add: st1)
  qed
  from Suc.IH [OF this] obtain st' where
    "awaitDeviceStateSettle getStatus st1 = awaitDeviceStateSettle getStatus st'"
    "apiCalls st' = apiCalls st1 + N"
    "status_calls (trace st') = status_calls (trace st1) + N"
    "created_watchers (trace st') = created_watchers (trace st1)"
    "containers st' = containers st1" "buildTasks st' = buildTasks st1"
    "buildContext st' = buildContext st1" "composition st' = composition st1"
    by blast
  with eq st1 show ?case by (intro exI [of _ st']) simp
qed

text \<open>
  C4. When the device answers the first \<open>N\<close> polls with a status whose tag is not
  "applied" and the next poll with a status \<open>sN\<close> whose tag is "applied", the wait returns
  (it is not the endless one), it has issued exactly \<open>N + 1\<close> polls, and the status the
  manager keeps for building the sessions is \<open>sN\<close>.
\<close>

theorem awaitDeviceStateSettle_polls:
  assumes "\<forall>i<N. \<exists>s. getStatus (apiCalls st + i) = Inr s \<and> appState s \<noteq> ''applied''"
    and "getStatus (apiCalls st + N) = Inr sN" and "appState sN = ''applied''"
  shows "\<exists>st'. awaitDeviceStateSettle getStatus st = Some (Inr (), st')
           \<and> apiCalls st' = apiCalls st + Suc N
           \<and> status_calls (trace st') = status_calls (trace st) + Suc N
           \<and> lastDeviceStatus st' = Some sN"
proof -
  from await_retries [OF assms(1)] obtain st1 where st1:
    "awaitDeviceStateSettle getStatus st = awaitDeviceStateSettle getStatus st1"
    "apiCalls st1 = apiCalls st + N"
    "status_calls (trace st1) = status_calls (trace st) + N"
    by blast
  from assms(2) st1(2) have "getStatus (apiCalls st1) = Inr sN" by simp
  then have "awaitDeviceStateSettle getStatus st1 =
      Some (Inr (), (emit_effect GetStatus (st1\<lparr>apiCalls := Suc (apiCalls st1)\<rparr>))
                       \<lparr>lastDeviceStatus := Some sN\<rparr>)"
    using assms(3) by (rule await_applied [where getStatus = getStatus and st = st1])
  with st1 show ?thesis
    by (simp add: emit_effect_def status_calls_def)
qed

theorem awaitDeviceStateSettle_polls_witness:
  "\<exists>st'. awaitDeviceStateSettle ex_getStatus (ex_manager [(''web'', ex_web)] ex_tasks)
            = Some (Inr (), st')
         \<and> apiCalls st' = 3 \<and> status_calls (trace st') = 3
         \<and> lastDeviceStatus st' = Some (ex_status ''applied'')"
  using awaitDeviceStateSettle_polls
    [of 2 ex_getStatus "ex_manager [(''web'', ex_web)] ex_tasks" "ex_status ''applied''"]
  by (simp add: ex_getStatus_def ex_manager_def new_LivepushManager_def ex_status_def
      status_calls_def)

text \<open>
  C9. When a poll is rejected (after any number \<open>N\<close> of unsettled answers), the wait does
  not poll again: \<open>init\<close> returns that error after exactly \<open>N + 1\<close> polls, with the
  session map as it was and no watcher created.
\<close>

theorem getStatus_failure_aborts_init:
  assumes "\<forall>i<N. \<exists>s. getStatus (apiCalls st + i) = Inr s \<and> appState s \<noteq> ''applied''"
    and "getStatus (apiCalls st + N) = Inl e"
  shows "\<exists>st'. init getStatus construct join st = Some (Inl e, st')
           \<and> apiCalls st' = apiCalls st + Suc N
           \<and> status_calls (trace st') = status_calls (trace st) + Suc N
           \<and> containers st' = containers st
           \<and> created_watchers (trace st') = created_watchers (trace st)"
proof -
  define st0 where "st0 = emit_effect (LogLivepush ''Waiting for device state to settle...'') st"
  have st0: "apiCalls st0 = apiCalls st" "status_calls (trace st0) = status_calls (trace st)"
    "containers st0 = containers st" "created_watchers (trace st0) = created_watchers (trace st)"
    by (simp_all add: st0_def emit_effect_def status_calls_def created_watchers_append)
  from assms(1) have "\<forall>i<N. \<exists>s. getStatus (apiCalls st0 + i) = Inr s \<and> appState s \<noteq> ''applied''"
    by (simp add: st0)
  from await_retries [OF this] obtain st1 where st1:
    "awaitDeviceStateSettle getStatus st0 = awaitDeviceStateSettle getStatus st1"
    "apiCalls st1 = apiCalls st0 + N"
    "status_calls (trace st1) = status_calls (trace st0) + N"
    "created_watchers (trace st1) = created_watchers (trace st0)"
    "containers st1 = containers st0"
    by blast
  define st2 where "st2 = emit_effect GetStatus (st1\<lparr>apiCalls := Suc (apiCalls st1)\<rparr>)"
  from assms(2) st1(2) st0(1) have "getStatus (apiCalls st1) = Inl e" by simp
  then have "awaitDeviceStateSettle getStatus st1 = Some (Inl e, st2)"
    unfolding st2_def by (rule await_rejected)
  with st1(1) have "init getStatus construct join st = Some (Inl e, st2)"
    by (simp add: init_def st0_def)
  moreover have "apiCalls st2 = apiCalls st + Suc N"
    "status_calls (trace st2) = status_calls (trace st) + Suc N"
    "containers st2 = containers st"
    "created_watchers (trace st2) = created_watchers (trace st)"
    using st0 st1
    by (simp_all add: st2_def emit_effect_def status_calls_def created_watchers_append)
  ultimately show ?thesis by blast
qed

theorem getStatus_failure_aborts_init_witness:
  "\<exists>st'. init ex_getStatus_failing ex_construct ex_join (ex_manager [(''web'', ex_web)] ex_tasks)
            = Some (Inl (ApiError ''ECONNREFUSED''), st')
         \<and> apiCalls st' = 3 \<and> status_calls (trace st') = 3
         \<and> containers st' = Map.empty \<and> created_watchers (trace st') = []"
  using getStatus_failure_aborts_init
    [of 2 ex_getStatus_failing "ex_manager [(''web'', ex_web)] ex_tasks"
        "ApiError ''ECONNREFUSED''" ex_construct ex_join]
  by (simp add: ex_getStatus_failing_def ex_manager_def new_LivepushManager_def ex_status_def
      status_calls_def)

section \<open>Handling events\<close>

text \<open>
  The handler run to completion is its first part followed, when it was suspended, by its
  second part on the result of \<open>performActions\<close>.
\<close>

lemma handleFSEvent_split:
  "handleFSEvent actionsNeeded performActions fsEvent st =
     (case handleFSEvent_start actionsNeeded fsEvent st of
        (Finished r, st') \<Rightarrow> (r, st')
      | (Awaiting ex, st') \<Rightarrow>
          handleFSEvent_resume
            (performActions (ex_livepush ex) (ex_updates ex) (ex_actions ex)) ex st')"
  by (simp add: handleFSEvent_def handleFSEvent_start_def handleFSEvent_resume_def
      executeActions_def Let_def split: sum.splits option.splits)

text \<open>
  C5. When \<open>actionsNeeded\<close> returns the empty list for the batch of an event, the handler
  returns having logged the event and queried the diff engine, and nothing more:
  \<open>performActions\<close> is not called, no notification is logged, the manager is otherwise
  unchanged and no execution is put in flight.
\<close>

theorem handleFSEvent_no_actions:
  assumes "classify fsEvent = Inr updates"
    and "containers st (serviceName fsEvent) = Some c"
    and "actionsNeeded (livepush c) updates = []"
  shows "handleFSEvent actionsNeeded performActions fsEvent st =
           (Inr (), st\<lparr>trace := trace st @
              [LogDebugFSEvent fsEvent, ActionsNeeded (livepush c) updates]\<rparr>)
         \<and> step actionsNeeded (FSEvent fsEvent) (st, inflight) =
           (st\<lparr>trace := trace st @
              [LogDebugFSEvent fsEvent, ActionsNeeded (livepush c) updates]\<rparr>, inflight)"
  using assms by (simp add: handleFSEvent_def handleFSEvent_start_def emit_effect_def)

theorem handleFSEvent_no_actions_witness:
  "handleFSEvent ex_actionsNeeded ex_performActions
     \<lparr>etype = ''add'', filename = ''README.md'', serviceName = ''web''\<rparr> ex_running =
     (Inr (), ex_running\<lparr>trace := trace ex_running @
        [LogDebugFSEvent \<lparr>etype = ''add'', filename = ''README.md'', serviceName = ''web''\<rparr>,
         ActionsNeeded ex_web_livepush \<lparr>updated = [], added = [''README.md''], deleted = []\<rparr>]\<rparr>)
   \<and> step ex_actionsNeeded
       (FSEvent \<lparr>etype = ''add'', filename = ''README.md'', serviceName = ''web''\<rparr>)
       (ex_running, []) =
     (ex_running\<lparr>trace := trace ex_running @
        [LogDebugFSEvent \<lparr>etype = ''add'', filename = ''README.md'', serviceName = ''web''\<rparr>,
         ActionsNeeded ex_web_livepush \<lparr>updated = [], added = [''README.md''], deleted = []\<rparr>]\<rparr>,
      [])"
proof -
  have h1: "classify \<lparr>etype = ''add'', filename = ''README.md'', serviceName = ''web''\<rparr>
              = Inr \<lparr>updated = [], added = [''README.md''], deleted = []\<rparr>"
    by (simp add: classify_def)
  have h2: "containers ex_running
              (serviceName \<lparr>etype = ''add'', filename = ''README.md'', serviceName = ''web''\<rparr>)
              = Some \<lparr>mc_context = ''/app/web'', livepush = ex_web_livepush,
                      monitor = new_monitor ''web'' ''/app/web''\<rparr>"
    by (simp add: ex_running_def ex_web_livepush_def)
  have h3: "ex_actionsNeeded
              (livepush \<lparr>mc_context = ''/app/web'', livepush = ex_web_livepush,
                         monitor = new_monitor ''web'' ''/app/web''\<rparr>)
              \<lparr>updated = [], added = [''README.md''], deleted = []\<rparr> = []"
    by (simp add: ex_actionsNeeded_def)
  from handleFSEvent_no_actions
    [where actionsNeeded = ex_actionsNeeded and performActions = ex_performActions
       and st = ex_running and inflight = "[]", OF h1 h2 h3]
  show ?thesis by simp
qed

text \<open>
  C8. \<open>executeActions\<close> calls \<open>performActions\<close> with the batch and the action list it was
  given and returns what that call returned; the line "Restarting container for service X"
  is logged exactly when the call resolved, and on rejection the error is the result.
  \<open>handleFSEvent\<close> hands every non-empty action list to it, with the batch it was
  computed from, and returns its result.
\<close>

theorem executeActions_notifies_iff_resolved:
  "executeActions performActions actions updates lp sn st =
     (performActions lp updates actions,
      st\<lparr>trace := trace st @ PerformActions lp updates actions #
         (case performActions lp updates actions of
            Inl e \<Rightarrow> []
          | Inr u \<Rightarrow> [LogLivepush (''Restarting container for service '' @ sn)])\<rparr>)
   \<and> (classify fsEvent = Inr upd \<and> containers st (serviceName fsEvent) = Some c
        \<and> actionsNeeded (livepush c) upd \<noteq> [] \<longrightarrow>
      handleFSEvent actionsNeeded performActions fsEvent st =
        (performActions (livepush c) upd (actionsNeeded (livepush c) upd),
         st\<lparr>trace := trace st @
            [LogDebugFSEvent fsEvent, ActionsNeeded (livepush c) upd,
             LogLivepush (''Detected changes for container '' @ serviceName fsEvent
                @ '', updating...''),
             PerformActions (livepush c) upd (actionsNeeded (livepush c) upd)] @
            (case performActions (livepush c) upd (actionsNeeded (livepush c) upd) of
               Inl e \<Rightarrow> []
             | Inr u \<Rightarrow>
                 [LogLivepush (''Restarting container for service '' @ serviceName fsEvent)])\<rparr>))"
  by (simp add: handleFSEvent_def executeActions_def emit_effect_def Let_def split: sum.splits)

theorem executeActions_notifies_iff_resolved_witness:
  "handleFSEvent ex_actionsNeeded ex_performActions
     \<lparr>etype = ''change'', filename = ''app.js'', serviceName = ''web''\<rparr> ex_running =
     (Inr (), ex_running\<lparr>trace := trace ex_running @
        [LogDebugFSEvent \<lparr>etype = ''change'', filename = ''app.js'', serviceName = ''web''\<rparr>,
         ActionsNeeded ex_web_livepush \<lparr>updated = [''app.js''], added = [], deleted = []\<rparr>,
         LogLivepush ''Detected changes for container web, updating...'',
         PerformActions ex_web_livepush \<lparr>updated = [''app.js''], added = [], deleted = []\<rparr> [6],
         LogLivepush ''Restarting container for service web'']\<rparr>)
   \<and> handleFSEvent ex_actionsNeeded ex_performActions_failing
     \<lparr>etype = ''change'', filename = ''app.js'', serviceName = ''web''\<rparr> ex_running =
     (Inl (ExecutionError ''exit code 1''), ex_running\<lparr>trace := trace ex_running @
        [LogDebugFSEvent \<lparr>etype = ''change'', filename = ''app.js'', serviceName = ''web''\<rparr>,
         ActionsNeeded ex_web_livepush \<lparr>updated = [''app.js''], added = [], deleted = []\<rparr>,
         LogLivepush ''Detected changes for container web, updating...'',
         PerformActions ex_web_livepush \<lparr>updated = [''app.js''], added = [], deleted = []\<rparr>
           [6]]\<rparr>)"
proof -
  let ?ev = "\<lparr>etype = ''change'', filename = ''app.js'', serviceName = ''web''\<rparr>"
  let ?upd = "\<lparr>updated = [''app.js''], added = [], deleted = []\<rparr>"
  let ?c = "\<lparr>mc_context = ''/app/web'', livepush = ex_web_livepush,
             monitor = new_monitor ''web'' ''/app/web''\<rparr>"
  have h: "classify ?ev = Inr ?upd \<and> containers ex_running (serviceName ?ev) = Some ?c
            \<and> ex_actionsNeeded (livepush ?c) ?upd \<noteq> []"
    by (simp add: classify_def ex_running_def ex_web_livepush_def ex_actionsNeeded_def)
  from executeActions_notifies_iff_resolved
    [of ex_performActions _ _ _ _ ex_running ?ev ?upd ?c ex_actionsNeeded] h
  have ok: "handleFSEvent ex_actionsNeeded ex_performActions ?ev ex_running =
        (ex_performActions (livepush ?c) ?upd (ex_actionsNeeded (livepush ?c) ?upd),
         ex_running\<lparr>trace := trace ex_running @
            [LogDebugFSEvent ?ev, ActionsNeeded (livepush ?c) ?upd,
             LogLivepush (''Detected changes for container '' @ serviceName ?ev
                @ '', updating...''),
             PerformActions (livepush ?c) ?upd (ex_actionsNeeded (livepush ?c) ?upd)] @
            (case ex_performActions (livepush ?c) ?upd (ex_actionsNeeded (livepush ?c) ?upd) of
               Inl e \<Rightarrow> []
             | Inr u \<Rightarrow>
                 [LogLivepush (''Restarting container for service '' @ serviceName ?ev)])\<rparr>)"
    by blast
  from executeActions_notifies_iff_resolved
    [of ex_performActions_failing _ _ _ _ ex_running ?ev ?upd ?c ex_actionsNeeded] h
  have ko: "handleFSEvent ex_actionsNeeded ex_performActions_failing ?ev ex_running =
        (ex_performActions_failing (livepush ?c) ?upd (ex_actionsNeeded (livepush ?c) ?upd),
         ex_running\<lparr>trace := trace ex_running @
            [LogDebugFSEvent ?ev, ActionsNeeded (livepush ?c) ?upd,
             LogLivepush (''Detected changes for container '' @ serviceName ?ev
                @ '', updating...''),
             PerformActions (livepush ?c) ?upd (ex_actionsNeeded (livepush ?c) ?upd)] @
            (case ex_performActions_failing (livepush ?c) ?upd
                    (ex_actionsNeeded (livepush ?c) ?upd) of
               Inl e \<Rightarrow> []
             | Inr u \<Rightarrow>
                 [LogLivepush (''Restarting container for service '' @ serviceName ?ev)])\<rparr>)"
    by blast
  from ok ko show ?thesis
    by (simp add: ex_actionsNeeded_def ex_performActions_def ex_performActions_failing_def)
qed

text \<open>
  C10. For an event whose kind is none of add, change and unlink, the handler fails with
  the unknown-event error after logging the event: the diff engine is not queried, no
  execution is started, and the manager (its session map included) is unchanged apart from
  that debug line.
\<close>

theorem handleFSEvent_unknown_kind:
  assumes "etype fsEvent \<noteq> ''add''" and "etype fsEvent \<noteq> ''change''"
    and "etype fsEvent \<noteq> ''unlink''"
  shows "handleFSEvent actionsNeeded performActions fsEvent st =
           (Inl (UnknownEvent (etype fsEvent)),
            st\<lparr>trace := trace st @ [LogDebugFSEvent fsEvent]\<rparr>)
         \<and> step actionsNeeded (FSEvent fsEvent) (st, inflight) =
           (st\<lparr>trace := trace st @ [LogDebugFSEvent fsEvent]\<rparr>, inflight)"
  using assms
  by (simp add: handleFSEvent_def handleFSEvent_start_def classify_def emit_effect_def)

theorem handleFSEvent_unknown_kind_witness:
  "handleFSEvent ex_actionsNeeded ex_performActions
     \<lparr>etype = ''addDir'', filename = ''lib'', serviceName = ''web''\<rparr> ex_running =
     (Inl (UnknownEvent ''addDir''),
      ex_running\<lparr>trace := trace ex_running @
        [LogDebugFSEvent \<lparr>etype = ''addDir'', filename = ''lib'', serviceName = ''web''\<rparr>]\<rparr>)
   \<and> step ex_actionsNeeded
       (FSEvent \<lparr>etype = ''addDir'', filename = ''lib'', serviceName = ''web''\<rparr>)
       (ex_running, []) =
     (ex_running\<lparr>trace := trace ex_running @
        [LogDebugFSEvent \<lparr>etype = ''addDir'', filename = ''lib'', serviceName = ''web''\<rparr>]\<rparr>,
      [])"
  using handleFSEvent_unknown_kind
    [of "\<lparr>etype = ''addDir'', filename = ''lib'', serviceName = ''web''\<rparr>"
        ex_actionsNeeded ex_performActions ex_running "[]"]
  by simp

section \<open>Building the sessions\<close>

text \<open>The loop on the concrete device: \<open>init\<close> reaches it after one poll.\<close>

lemma ex_init:
  "init ex_getStatus_applied construct ex_join (ex_manager svcs tasks)
     = Some (initServices construct ex_join svcs (ex_settled svcs tasks))"
proof -
  let ?st0 = "emit_effect (LogLivepush ''Waiting for device state to settle...'')
                (ex_manager svcs tasks)"
  have "ex_getStatus_applied (apiCalls ?st0) = Inr (ex_status ''applied'')"
    by (simp add: ex_getStatus_applied_def)
  moreover have "appState (ex_status ''applied'') = ''applied''"
    by (simp add: ex_status_def)
  ultimately have "awaitDeviceStateSettle ex_getStatus_applied ?st0 =
      Some (Inr (), (emit_effect GetStatus (?st0\<lparr>apiCalls := Suc (apiCalls ?st0)\<rparr>))
                       \<lparr>lastDeviceStatus := Some (ex_status ''applied'')\<rparr>)"
    by (rule await_applied [where getStatus = ex_getStatus_applied and st = ?st0])
  then show ?thesis
    by (simp add: init_def emit_effect_def ex_manager_def new_LivepushManager_def ex_settled_def)
qed




lemma initService_failing:
  assumes "lastDeviceStatus st = Some status"
    and "\<not> has_task st sn \<or>
         (build service \<noteq> None \<and>
          \<not> (has_dockerfile st sn \<and> has_container status sn
             \<and> construction_error construct join st status sn service = None))"
  shows "\<exists>e. initService construct join sn service st = (Inl e, st)
           \<and> (if \<not> has_task st sn then e = NoBuildTask sn
               else if \<not> has_dockerfile st sn then e = NoDockerfile sn
               else if \<not> has_container status sn then e = NoContainer sn
               else construction_error construct join st status sn service = Some e)"
  using assms
  by (auto simp: initService_def has_task_def has_dockerfile_def has_container_def
      construction_error_def Let_def split: option.splits)

lemma initService_passing:
  assumes "lastDeviceStatus st = Some status"
    and "has_task st sn"
    and "build service \<noteq> None \<longrightarrow>
           has_dockerfile st sn \<and> has_container status sn
           \<and> construction_error construct join st status sn service = None"
  shows "\<exists>st'. initService construct join sn service st = (Inr (), st')
           \<and> dom (containers st') = dom (containers st) \<union> (if build service \<noteq> None then {sn} else {})
           \<and> lastDeviceStatus st' = lastDeviceStatus st
           \<and> buildTasks st' = buildTasks st
           \<and> buildContext st' = buildContext st"
  using assms
  by (auto simp: initService_def has_task_def has_dockerfile_def has_container_def
      construction_error_def emit_effect_def Let_def split: option.splits)



text \<open>
  C6, as the code has it. A service that declares no build and has a build task is skipped:
  the loop body returns without error and leaves the manager as it was, whatever the task's
  dockerfile and the device's containers are. The build task is looked up before the build
  is looked at, so such a service without a build task fails with the missing-task error.
\<close>

theorem initService_image_only:
  assumes "build service = None"
  shows "initService construct join sn service st =
           (if has_task st sn then (Inr (), st) else (Inl (NoBuildTask sn), st))"
  using assms by (simp add: initService_def has_task_def split: option.splits)

theorem initService_image_only_witness:
  "initService ex_construct ex_join ''db'' ex_db
       (ex_settled [(''web'', ex_web), (''db'', ex_db)] ex_tasks)
     = (Inr (), ex_settled [(''web'', ex_web), (''db'', ex_db)] ex_tasks)
   \<and> \<not> has_dockerfile (ex_settled [(''web'', ex_web), (''db'', ex_db)] ex_tasks) ''db''
   \<and> \<not> has_container (ex_status ''applied'') ''db''"
  using initService_image_only
    [where service = ex_db and construct = ex_construct and join = ex_join and sn = "''db''"
       and st = "ex_settled [(''web'', ex_web), (''db'', ex_db)] ex_tasks"]
  by (simp add: ex_db_def ex_settled_def ex_tasks_def has_task_def has_dockerfile_def
      has_container_def ex_status_def)

text \<open>
  C6 as stated fails: with the image-only service \<open>db\<close> and no build task for it,
  \<open>init\<close> raises the missing-task error.
\<close>

theorem image_service_without_task_fails:
  "init ex_getStatus_applied ex_construct ex_join (ex_manager [(''db'', ex_db)] [])
     = Some (Inl (NoBuildTask ''db''), ex_settled [(''db'', ex_db)] [])"
  by (simp add: ex_init initService_def ex_settled_def)

text \<open>
  C2, as the code has it. Take the first service, in enumeration order, that has no build
  task, or declares a build and lacks a dockerfile or a container in the cached status, or
  declares a build and has the construction of its diff-engine handle throw. The loop
  raises the error of the first of these four steps that service fails (for the last one,
  the exception of the constructor). The sessions stored for the services before it stay
  in the manager: the session map then holds, besides what it held before, exactly the
  services before it that declare a build. No later service is looked at.
\<close>

theorem initServices_fails_at_first_failing_service:
  assumes "lastDeviceStatus st = Some status"
    and "\<forall>(n, s) \<in> set pre.
           has_task st n \<and>
           (build s \<noteq> None \<longrightarrow>
              has_dockerfile st n \<and> has_container status n
              \<and> construction_error construct join st status n s = None)"
    and "\<not> has_task st sn \<or>
         (build service \<noteq> None \<and>
          \<not> (has_dockerfile st sn \<and> has_container status sn
             \<and> construction_error construct join st status sn service = None))"
  shows "\<exists>e st'. initServices construct join (pre @ (sn, service) # post) st = (Inl e, st')
           \<and> (if \<not> has_task st sn then e = NoBuildTask sn
               else if \<not> has_dockerfile st sn then e = NoDockerfile sn
               else if \<not> has_container status sn then e = NoContainer sn
               else construction_error construct join st status sn service = Some e)
           \<and> dom (containers st') =
               dom (containers st) \<union> {n. \<exists>s. (n, s) \<in> set pre \<and> build s \<noteq> None}"
  using assms
proof (induction pre arbitrary: st)
  case Nil
  from initService_failing [OF Nil(1) Nil(3)] obtain e where
    "initService construct join sn service st = (Inl e, st)"
    "if \<not> has_task st sn then e = NoBuildTask sn
     else if \<not> has_dockerfile st sn then e = NoDockerfile sn
     else if \<not> has_container status sn then e = NoContainer sn
     else construction_error construct join st status sn service = Some e"
    by blast
  then show ?case by (intro exI [of _ e] exI [of _ st]) simp
next
  case (Cons a pre)
  obtain n s where a: "a = (n, s)" by (cases a)
  from Cons.prems(2) a have ok: "has_task st n"
    "build s \<noteq> None \<longrightarrow> has_dockerfile st n \<and> has_container status n
       \<and> construction_error construct join st status n s = None" by auto
  from initService_passing [OF Cons.prems(1) ok] obtain st1 where st1:
    "initService construct join n s st = (Inr (), st1)"
    "dom (containers st1) = dom (containers st) \<union> (if build s \<noteq> None then {n} else {})"
    "lastDeviceStatus st1 = lastDeviceStatus st" "buildTasks st1 = buildTasks st"
    "buildContext st1 = buildContext st"
    by blast
  have h: "has_task st1 = has_task st" "has_dockerfile st1 = has_dockerfile st"
    "construction_error construct join st1 = construction_error construct join st"
    by (simp_all add: has_task_def has_dockerfile_def construction_error_def st1 fun_eq_iff
        cong: option.case_cong)
  have "\<exists>e st'. initServices construct join (pre @ (sn, service) # post) st1 = (Inl e, st')
           \<and> (if \<not> has_task st1 sn then e = NoBuildTask sn
               else if \<not> has_dockerfile st1 sn then e = NoDockerfile sn
               else if \<not> has_container status sn then e = NoContainer sn
               else construction_error construct join st1 status sn service = Some e)
           \<and> dom (containers st') =
               dom (containers st1) \<union> {n. \<exists>s. (n, s) \<in> set pre \<and> build s \<noteq> None}"
    using Cons.prems by (intro Cons.IH) (auto simp: st1 h)
  then obtain e st' where r:
    "initServices construct join (pre @ (sn, service) # post) st1 = (Inl e, st')"
    "if \<not> has_task st sn then e = NoBuildTask sn
     else if \<not> has_dockerfile st sn then e = NoDockerfile sn
     else if \<not> has_container status sn then e = NoContainer sn
     else construction_error construct join st status sn service = Some e"
    "dom (containers st') =
               dom (containers st1) \<union> {n. \<exists>s. (n, s) \<in> set pre \<and> build s \<noteq> None}"
    unfolding h by blast
  have "initServices construct join ((a # pre) @ (sn, service) # post) st = (Inl e, st')"
    using a st1(1) r(1) by simp
  moreover have "dom (containers st') =
      dom (containers st) \<union> {m. \<exists>t. (m, t) \<in> set (a # pre) \<and> build t \<noteq> None}"
    using r(3) st1(2) a by auto
  ultimately show ?case using r(2) by blast
qed

theorem initServices_fails_at_first_failing_service_witness:
  "\<exists>e st'. initServices ex_construct ex_join
              [(''web'', ex_web), (''worker'', ex_worker), (''db'', ex_db)]
              (ex_settled [(''web'', ex_web), (''worker'', ex_worker), (''db'', ex_db)] ex_tasks)
            = (Inl e, st')
         \<and> e = NoBuildTask ''worker''
         \<and> dom (containers st') = {''web''}"
  using initServices_fails_at_first_failing_service
    [where st = "ex_settled [(''web'', ex_web), (''worker'', ex_worker), (''db'', ex_db)] ex_tasks"
       and status = "ex_status ''applied''" and pre = "[(''web'', ex_web)]"
       and sn = "''worker''" and service = ex_worker and construct = ex_construct
       and join = ex_join and post = "[(''db'', ex_db)]"]
  by (simp add: ex_settled_def ex_tasks_def ex_web_def ex_worker_def ex_status_def
      has_task_def has_dockerfile_def has_container_def construction_error_def
      ex_construct_def)

text \<open>
  C2 as stated fails: with the qualifying service \<open>web\<close> enumerated before the service
  \<open>worker\<close>, which has no build task, \<open>init\<close> raises the missing-task error and the
  session of \<open>web\<close>, with its watcher, is left in the manager.
\<close>

theorem init_leaves_partial_sessions:
  "init ex_getStatus_applied ex_construct ex_join
     (ex_manager [(''web'', ex_web), (''worker'', ex_worker)] ex_tasks)
     = Some (Inl (NoBuildTask ''worker''),
             ex_running\<lparr>composition := \<lparr>services = [(''web'', ex_web), (''worker'', ex_worker)]\<rparr>\<rparr>)
   \<and> dom (containers
         (ex_running\<lparr>composition := \<lparr>services = [(''web'', ex_web), (''worker'', ex_worker)]\<rparr>\<rparr>))
     = {''web''}"
  by (simp add: ex_init ex_settled_def ex_running_def initService_def ex_tasks_def ex_web_def
      ex_worker_def ex_status_def ex_join_def ex_construct_def emit_effect_def Let_def)







section \<open>Executions in flight\<close>

text \<open>
  C1, as the code has it. The module has no per-session lock. A batch whose action list is
  not empty has \<open>performActions\<close> called in the very callback that computed the list, and
  its execution joins those in flight, whatever is in flight already, for the same session
  or for another one. So batches of different sessions may execute concurrently, and so may
  batches of one session.
\<close>

theorem execution_starts_in_the_callback:
  assumes "classify fsEvent = Inr updates"
    and "containers st (serviceName fsEvent) = Some c"
    and "actionsNeeded (livepush c) updates \<noteq> []"
  shows "step actionsNeeded (FSEvent fsEvent) (st, inflight) =
           (st\<lparr>trace := trace st @
               [LogDebugFSEvent fsEvent, ActionsNeeded (livepush c) updates,
                LogLivepush (''Detected changes for container '' @ serviceName fsEvent
                   @ '', updating...''),
                PerformActions (livepush c) updates (actionsNeeded (livepush c) updates)]\<rparr>,
            inflight @ [Execution (livepush c) updates (actionsNeeded (livepush c) updates)
                          (serviceName fsEvent)])"
  using assms by (simp add: handleFSEvent_start_def emit_effect_def Let_def)

theorem execution_starts_in_the_callback_witness:
  "snd (step ex_actionsNeeded
          (FSEvent \<lparr>etype = ''change'', filename = ''lib.js'', serviceName = ''web''\<rparr>)
          (ex_running,
           [Execution ex_web_livepush \<lparr>updated = [''app.js''], added = [], deleted = []\<rparr> [6]
              ''web'']))
     = [Execution ex_web_livepush \<lparr>updated = [''app.js''], added = [], deleted = []\<rparr> [6]
          ''web'',
        Execution ex_web_livepush \<lparr>updated = [''lib.js''], added = [], deleted = []\<rparr> [6]
          ''web'']"
proof -
  let ?ev = "\<lparr>etype = ''change'', filename = ''lib.js'', serviceName = ''web''\<rparr>"
  let ?upd = "\<lparr>updated = [''lib.js''], added = [], deleted = []\<rparr>"
  let ?c = "\<lparr>mc_context = ''/app/web'', livepush = ex_web_livepush,
             monitor = new_monitor ''web'' ''/app/web''\<rparr>"
  have h1: "classify ?ev = Inr ?upd" by (simp add: classify_def)
  have h2: "containers ex_running (serviceName ?ev) = Some ?c"
    by (simp add: ex_running_def ex_web_livepush_def)
  have h3: "ex_actionsNeeded (livepush ?c) ?upd \<noteq> []"
    by (simp add: ex_actionsNeeded_def)
  from execution_starts_in_the_callback
    [where actionsNeeded = ex_actionsNeeded and st = ex_running, OF h1 h2 h3]
  show ?thesis by (simp add: ex_actionsNeeded_def)
qed

text \<open>
  C1 as stated fails: two change events for \<open>web\<close>, with no execution settling in
  between, leave two executions of \<open>web\<close> in flight.
\<close>

theorem two_executions_in_flight:
  "length (executing (snd (run ex_actionsNeeded
      [FSEvent \<lparr>etype = ''change'', filename = ''app.js'', serviceName = ''web''\<rparr>,
       FSEvent \<lparr>etype = ''change'', filename = ''lib.js'', serviceName = ''web''\<rparr>]
      (ex_running, []))) ''web'') = 2"
  by (simp add: handleFSEvent_start_def classify_def ex_running_def ex_actionsNeeded_def
      emit_effect_def executing_def Let_def)

end
